theory Spec2Isabelle
  imports Main
begin

section \<open>JavaScript values and errors\<close>

text \<open>
  The server (\<^verbatim>\<open>server.js\<close>) is an Express application.  Request fields are JSON
  values and the code tests them with JavaScript truthiness, so they are modelled by a
  small datatype of JavaScript values.  An object or array is always truthy; its contents
  never matter to the code, so it is kept as its serialised text.
\<close>

datatype jsval =
    JUndefined
  | JNull
  | JBool bool
  | JNum int
  | JStr string
  | JObj string

fun truthy :: "jsval \<Rightarrow> bool" where
  "truthy JUndefined = False"
| "truthy JNull = False"
| "truthy (JBool b) = b"
| "truthy (JNum n) = (n \<noteq> 0)"
| "truthy (JStr s) = (s \<noteq> [])"
| "truthy (JObj s) = True"

text \<open>
  The error objects of the program: \<^verbatim>\<open>HttpError(message, code)\<close> and
  \<^verbatim>\<open>EthereumContractError(message, originalError)\<close> are the two classes of the
  source; \<open>TypeError\<close> is what the runtime raises for a method call on a value that has
  no such method; \<open>LibError\<close> is an error raised by an external library, with the
  message and the \<^verbatim>\<open>code\<close> property it carries (\<open>JUndefined\<close> when it has none).
\<close>

datatype js_error =
    HttpError string int
  | EthereumContractError string
  | TypeError string
  | SyntaxError string
  | LibError string jsval

fun message :: "js_error \<Rightarrow> string" where
  "message (HttpError m c) = m"
| "message (EthereumContractError m) = m"
| "message (TypeError m) = m"
| "message (SyntaxError m) = m"
| "message (LibError m c) = m"

fun code :: "js_error \<Rightarrow> jsval" where
  "code (HttpError m c) = JNum c"
| "code (EthereumContractError m) = JUndefined"
| "code (TypeError m) = JUndefined"
| "code (SyntaxError m) = JUndefined"
| "code (LibError m c) = c"

section \<open>Configuration and external libraries\<close>

text \<open>
  \<^verbatim>\<open>process.env\<close>: a variable that is not set reads as \<^verbatim>\<open>undefined\<close>, which a
  template literal prints as the text \<^verbatim>\<open>undefined\<close>.
\<close>

record env =
  SECRET :: "string option"
  JWT_SECRET_KEY :: "string option"

fun template :: "string option \<Rightarrow> string" where
  "template None = ''undefined''"
| "template (Some s) = s"

text \<open>
  The libraries the program calls are parameters of the model:
  \<^item> \<open>sha1_hex\<close> is \<^verbatim>\<open>crypto.createHash('sha1').update(s).digest('hex')\<close>;
  \<^item> \<open>ethers_isAddress\<close> is \<^verbatim>\<open>ethers.isAddress\<close> on a string (it answers
    \<^verbatim>\<open>false\<close> on every value that is not a string);
  \<^item> \<open>ethers_verifyMessage\<close> is \<^verbatim>\<open>ethers.verifyMessage(message, signature)\<close>:
    the recovered address, or \<open>None\<close> when it throws;
  \<^item> \<open>jwt_sign\<close> is \<^verbatim>\<open>jwt.sign(payload, key, {expiresIn}, callback)\<close>, given the
    \<^verbatim>\<open>walletAddress\<close> of the payload, the key and the \<^verbatim>\<open>expiresIn\<close> option: the
    error or the token handed to the callback;
  \<^item> \<open>jwt_verify\<close> is \<^verbatim>\<open>jwt.verify(token, key, callback)\<close> at the time of the
    request: the error or the \<^verbatim>\<open>walletAddress\<close> of the decoded payload;
  \<^item> \<open>JSON_parse\<close> is \<^verbatim>\<open>JSON.parse\<close>: \<open>None\<close> when it throws a SyntaxError.
\<close>

record lib =
  sha1_hex :: "string \<Rightarrow> string"
  ethers_isAddress :: "string \<Rightarrow> bool"
  ethers_verifyMessage :: "jsval \<Rightarrow> jsval \<Rightarrow> string option"
  jwt_sign :: "jsval \<Rightarrow> string option \<Rightarrow> string \<Rightarrow> js_error + string"
  jwt_verify :: "string \<Rightarrow> string option \<Rightarrow> js_error + jsval"
  JSON_parse :: "string \<Rightarrow> jsval option"

section \<open>Strings\<close>

text \<open>
  \<^verbatim>\<open>String.prototype.toLowerCase\<close> on the ASCII range: the letters \<^verbatim>\<open>A\<close> to
  \<^verbatim>\<open>Z\<close> (codes 65 to 90) move up by 32, every other character stays.  The strings
  the program lowers are wallet addresses, which are ASCII.
\<close>

definition lower_char :: "char \<Rightarrow> char" where
  "lower_char c =
     (let n = of_char c :: nat in if 65 \<le> n \<and> n \<le> 90 then char_of (n + 32) else c)"

definition toLowerCase :: "string \<Rightarrow> string" where
  "toLowerCase s = map lower_char s"

section \<open>Nonce generation\<close>

text \<open>
  \<^verbatim>\<open>
  const generateNonce = (address) => {
    const checkHash = crypto.createHash('sha1');
    checkHash.update(`${address.toLowerCase()}:${process.env.SECRET}`);
    return checkHash.digest('hex');
  };
  \<close>
  The argument is whatever the caller passes.  On a value that is not a string the call
  \<^verbatim>\<open>address.toLowerCase()\<close> raises a TypeError: \<^verbatim>\<open>undefined\<close> and \<^verbatim>\<open>null\<close>
  have no properties, and no other value has that method.
\<close>

fun generateNonce :: "lib \<Rightarrow> env \<Rightarrow> jsval \<Rightarrow> js_error + string" where
  "generateNonce L E (JStr a) =
     Inr (sha1_hex L (toLowerCase a @ '':'' @ template (SECRET E)))"
| "generateNonce L E JUndefined = Inl (TypeError ''Cannot read properties of undefined'')"
| "generateNonce L E JNull = Inl (TypeError ''Cannot read properties of null'')"
| "generateNonce L E v = Inl (TypeError ''address.toLowerCase is not a function'')"

section \<open>Requests, responses and the middleware chain\<close>

text \<open>
  What a handler can do that a client or the runtime observes, in the order it happens:
  \<^item> \<open>Send status body\<close>: an answer leaves the server with that status and body
    (\<^verbatim>\<open>res.send\<close> alone answers with 200); \<open>ErrorPage\<close> is the page that the
    default error handler of Express writes for an exception;
  \<^item> \<open>Proxy target\<close>: the request is handed to the proxy middleware for \<open>target\<close>;
  \<^item> \<open>ContractCall method arg\<close>: a read call to the whitelist contract is issued;
  \<^item> \<open>Uncaught e\<close>: an exception leaves a handler that nothing in the source catches
    (the promise of an \<^verbatim>\<open>async\<close> handler is rejected, or a listener throws);
  \<^item> \<open>FellThrough\<close>: \<^verbatim>\<open>next()\<close> was called by the last handler of a route.
\<close>

datatype payload =
    Text string
  | NonceObj string
  | TokenObj string
  | Data jsval
  | ErrorPage

datatype event =
    Send jsval payload
  | Proxy string
  | ContractCall string jsval
  | Uncaught js_error
  | FellThrough

text \<open>
  The request and response objects that the handlers of one request share and mutate:
  the fields of \<^verbatim>\<open>req.body\<close> the code reads, the \<^verbatim>\<open>Authorization\<close> header,
  \<^verbatim>\<open>res.locals.address\<close>, and the events so far.
\<close>

record ctx =
  walletAddress :: jsval
  nonce :: jsval
  signedMessage :: jsval
  authorization :: "string option"
  locals_address :: jsval
  events :: "event list"

definition emit :: "event \<Rightarrow> ctx \<Rightarrow> ctx" where
  "emit e c = c\<lparr>events := events c @ [e]\<rparr>"

text \<open>
  A handler receives \<^verbatim>\<open>next\<close>; \<^verbatim>\<open>next()\<close> is \<open>next None\<close> and
  \<^verbatim>\<open>next(err)\<close> is \<open>next (Some err)\<close>.
\<close>

type_synonym nextfn = "js_error option \<Rightarrow> ctx \<Rightarrow> ctx"
type_synonym handler = "nextfn \<Rightarrow> ctx \<Rightarrow> ctx"

text \<open>
  The error-handling middleware registered last:
  \<^verbatim>\<open>
  app.use((err, req, res, next) => {
    const status = err.code || 500;
    const message = err.message || 'Something went wrong';
    res.status(status).send(message);
  });
  \<close>
  An answer can only be written with a status that is an integer from 100 to 999.  With
  any other value, such as the string code of a library error,
  \<^verbatim>\<open>res.status(status).send(message)\<close> throws inside the handler; Express catches what
  an error handler throws and its default handler answers 500 with its own error page,
  not with \<^verbatim>\<open>message\<close>.
\<close>

fun valid_status :: "jsval \<Rightarrow> bool" where
  "valid_status (JNum k) = (100 \<le> k \<and> k \<le> 999)"
| "valid_status v = False"

definition errorHandler :: "js_error \<Rightarrow> ctx \<Rightarrow> ctx" where
  "errorHandler err c =
     (let status = (if truthy (code err) then code err else JNum 500);
          msg = (if truthy (JStr (message err)) then message err else ''Something went wrong'')
      in if valid_status status then emit (Send status (Text msg)) c
         else emit (Send (JNum 500) ErrorPage) c)"

text \<open>
  Express runs the handlers of a route in order: \<^verbatim>\<open>next()\<close> enters the next
  handler, \<^verbatim>\<open>next(err)\<close> skips to the error-handling middleware.
\<close>

fun route :: "handler list \<Rightarrow> nextfn" where
  "route hs (Some err) c = errorHandler err c"
| "route [] None c = emit FellThrough c"
| "route (h # hs) None c = h (route hs) c"

text \<open>A request as it arrives: no locals, nothing has happened yet.\<close>

definition request :: "jsval \<Rightarrow> jsval \<Rightarrow> jsval \<Rightarrow> string option \<Rightarrow> ctx" where
  "request w n s a =
     \<lparr>walletAddress = w, nonce = n, signedMessage = s, authorization = a,
      locals_address = JUndefined, events = []\<rparr>"

section \<open>Signup: challenge issuance\<close>

text \<open>
  \<^verbatim>\<open>
  const validateWalletAddress = (req, res, next) => {
    if (!req.body.walletAddress) {
      return next(new HttpError('Missing wallet address', 400));
    }
    if (!ethers.isAddress(req.body.walletAddress)) {
      return next(new HttpError('Invalid wallet address', 400));
    }
    next();
  };
  \<close>
\<close>

fun isAddress :: "lib \<Rightarrow> jsval \<Rightarrow> bool" where
  "isAddress L (JStr s) = ethers_isAddress L s"
| "isAddress L v = False"

definition validateWalletAddress :: "lib \<Rightarrow> handler" where
  "validateWalletAddress L next c =
     (if \<not> truthy (walletAddress c) then next (Some (HttpError ''Missing wallet address'' 400)) c
      else if \<not> isAddress L (walletAddress c)
        then next (Some (HttpError ''Invalid wallet address'' 400)) c
      else next None c)"

text \<open>
  \<^verbatim>\<open>
  const transformWalletAddress = (req, res, next) => {
    req.body.walletAddress = req.body.walletAddress.toLowerCase();
    next();
  };
  \<close>
  On a value that is not a string the method call throws; Express catches what a
  synchronous handler throws and passes it to \<^verbatim>\<open>next\<close>.
\<close>

fun transformWalletAddress :: handler where
  "transformWalletAddress next c =
     (case walletAddress c of
        JStr a \<Rightarrow> next None (c\<lparr>walletAddress := JStr (toLowerCase a)\<rparr>)
      | _ \<Rightarrow> next (Some (TypeError ''req.body.walletAddress.toLowerCase is not a function'')) c)"

text \<open>
  \<^verbatim>\<open>
  const createNonce = async (req, res, next) => {
    try {
      res.status(200).send({ nonce: generateNonce(req.body.walletAddress) });
    } catch (err) {
      next(err);
    }
  };
  app.post('/signup', validateWalletAddress, transformWalletAddress, createNonce);
  \<close>
\<close>

definition createNonce :: "lib \<Rightarrow> env \<Rightarrow> handler" where
  "createNonce L E next c =
     (case generateNonce L E (walletAddress c) of
        Inl err \<Rightarrow> next (Some err) c
      | Inr n \<Rightarrow> emit (Send (JNum 200) (NonceObj n)) c)"

definition signup :: "lib \<Rightarrow> env \<Rightarrow> ctx \<Rightarrow> ctx" where
  "signup L E c =
     route [validateWalletAddress L, transformWalletAddress, createNonce L E] None c"

section \<open>Verification: credential issuance\<close>

text \<open>
  \<^verbatim>\<open>
  const validateVerificationParameters = (req, res, next) => {
    if (!req.body.nonce) {
      return next(new HttpError('Nonce not provided', 400));
    }
    if (!req.body.signedMessage) {
      return next(new HttpError('Signed message not provided', 400));
    }
    next();
  };
  \<close>
\<close>

definition validateVerificationParameters :: handler where
  "validateVerificationParameters next c =
     (if \<not> truthy (nonce c) then next (Some (HttpError ''Nonce not provided'' 400)) c
      else if \<not> truthy (signedMessage c)
        then next (Some (HttpError ''Signed message not provided'' 400)) c
      else next None c)"

text \<open>
  \<^verbatim>\<open>
  const getAddressFromMessage = (nonce, signedMessage, next) => {
    try {
      return ethers.verifyMessage(nonce, signedMessage);
    } catch {
      return next(new HttpError('Failed to verify message', 400));
    }
  };
  \<close>
  The function returns to its caller in both branches: the recovered address, or what
  \<^verbatim>\<open>next\<close> returns, which is \<^verbatim>\<open>undefined\<close>.  The context after the call is
  returned beside the value.
\<close>

definition getAddressFromMessage :: "lib \<Rightarrow> jsval \<Rightarrow> jsval \<Rightarrow> nextfn \<Rightarrow> ctx \<Rightarrow> jsval \<times> ctx" where
  "getAddressFromMessage L n s next c =
     (case ethers_verifyMessage L n s of
        Some a \<Rightarrow> (JStr a, c)
      | None \<Rightarrow> (JUndefined, next (Some (HttpError ''Failed to verify message'' 400)) c))"

text \<open>
  \<^verbatim>\<open>
  const verifyMessage = async (req, res, next) => {
    const address = getAddressFromMessage(req.body.nonce, req.body.signedMessage, next);
    const newNonce = generateNonce(address);

    if (req.body.nonce !== newNonce) {
      return next(new HttpError('Nonce mismatch', 400));
    }
    res.locals.address = address;
    next();
  };
  \<close>
  The handler is \<^verbatim>\<open>async\<close> and has no \<^verbatim>\<open>try\<close>: an exception of
  \<^verbatim>\<open>generateNonce\<close> rejects its promise.  What the framework does with a rejected
  promise is not part of the source; the model records it as \<open>Uncaught\<close>.
\<close>

definition verifyMessage :: "lib \<Rightarrow> env \<Rightarrow> handler" where
  "verifyMessage L E next c =
     (let (address, c1) = getAddressFromMessage L (nonce c) (signedMessage c) next c
      in case generateNonce L E address of
           Inl err \<Rightarrow> emit (Uncaught err) c1
         | Inr newNonce \<Rightarrow>
             if nonce c1 \<noteq> JStr newNonce then next (Some (HttpError ''Nonce mismatch'' 400)) c1
             else next None (c1\<lparr>locals_address := address\<rparr>))"

text \<open>
  \<^verbatim>\<open>
  const createJwtToken = async (walletAddress) => {
    return new Promise((resolve, reject) => {
      jwt.sign({ walletAddress }, process.env.JWT_SECRET_KEY, { expiresIn: '1d' }, (err, token) => {
        if (err) reject(err);
        resolve(token);
      });
    });
  };
  app.post('/verify', validateVerificationParameters, verifyMessage, async (req, res, next) => {
    try {
      res.status(200).send({ token: await createJwtToken(res.locals.address) });
    } catch (err) {
      next(err);
    }
  });
  \<close>
  A promise settles once: after \<^verbatim>\<open>reject(err)\<close> the call \<^verbatim>\<open>resolve(token)\<close> has
  no effect.
\<close>

definition createJwtToken :: "lib \<Rightarrow> env \<Rightarrow> jsval \<Rightarrow> js_error + string" where
  "createJwtToken L E w = jwt_sign L w (JWT_SECRET_KEY E) ''1d''"

definition sendToken :: "lib \<Rightarrow> env \<Rightarrow> handler" where
  "sendToken L E next c =
     (case createJwtToken L E (locals_address c) of
        Inl err \<Rightarrow> next (Some err) c
      | Inr token \<Rightarrow> emit (Send (JNum 200) (TokenObj token)) c)"

definition verify :: "lib \<Rightarrow> env \<Rightarrow> ctx \<Rightarrow> ctx" where
  "verify L E c =
     route [validateVerificationParameters, verifyMessage L E, sendToken L E] None c"

section \<open>Token validation\<close>

text \<open>
  \<^verbatim>\<open>String.prototype.split\<close> with a one-character separator: the pieces between the
  separators, so a string without the separator is one piece and two adjacent separators
  enclose an empty piece.  \<open>at1\<close> is the index expression \<^verbatim>\<open>[1]\<close>, which is
  \<^verbatim>\<open>undefined\<close> on an array of fewer than two elements.
\<close>

fun split_on :: "char \<Rightarrow> string \<Rightarrow> string list" where
  "split_on sep [] = [[]]"
| "split_on sep (x # xs) =
     (if x = sep then [] # split_on sep xs
      else (case split_on sep xs of
              [] \<Rightarrow> [[x]]
            | w # ws \<Rightarrow> (x # w) # ws))"

fun at1 :: "'a list \<Rightarrow> 'a option" where
  "at1 (x # y # ys) = Some y"
| "at1 xs = None"

text \<open>
  \<^verbatim>\<open>
  const verifyToken = (req) => {
    const authHeader = req.headers.authorization;
    const token = authHeader?.split(' ')[1];
    if (token == null) throw new HttpError('Unauthorized', 401);

    return new Promise((resolve, reject) => {
      jwt.verify(token, process.env.JWT_SECRET_KEY, (err, decoded) => {
        if (err) reject(new HttpError('Forbidden', 403));
        resolve(decoded);
      });
    });
  };
  \<close>
  The only field of the decoded payload that the program reads is
  \<^verbatim>\<open>walletAddress\<close>, so the result is that field.
\<close>

fun bearer :: "string option \<Rightarrow> string option" where
  "bearer None = None"
| "bearer (Some authHeader) = at1 (split_on CHR '' '' authHeader)"

definition verifyToken :: "lib \<Rightarrow> env \<Rightarrow> ctx \<Rightarrow> js_error + jsval" where
  "verifyToken L E c =
     (case bearer (authorization c) of
        None \<Rightarrow> Inl (HttpError ''Unauthorized'' 401)
      | Some token \<Rightarrow>
          (case jwt_verify L token (JWT_SECRET_KEY E) of
             Inl err \<Rightarrow> Inl (HttpError ''Forbidden'' 403)
           | Inr decoded \<Rightarrow> Inr decoded))"

section \<open>The authorization gates\<close>

text \<open>
  The whitelist contract as it answers at the time of one request: whether the provider
  and contract objects can be built, and what the read methods \<^verbatim>\<open>isGranted\<close> and
  \<^verbatim>\<open>isAdmin\<close> return or throw.  What a failed call throws is an error made by ethers
  or by the runtime: it has a message, and its \<^verbatim>\<open>code\<close> property is one of their string
  codes (\<^verbatim>\<open>CALL_EXCEPTION\<close>, \<^verbatim>\<open>NETWORK_ERROR\<close>, \<^verbatim>\<open>TIMEOUT\<close>, ...) or is absent.
  \<^verbatim>\<open>
  const getEthereumContract = () => {
    try {
      const provider = new JsonRpcProvider('https://sepolia.optimism.io');
      return new Contract(address, abi, provider);
    } catch (err) {
      throw new EthereumContractError('Failed to get Ethereum contract', err);
    }
  };
  \<close>
\<close>

datatype oracle_error = OracleError string "string option"

fun thrown :: "oracle_error \<Rightarrow> js_error" where
  "thrown (OracleError m None) = LibError m JUndefined"
| "thrown (OracleError m (Some c)) = LibError m (JStr c)"

record ledger =
  constructs :: bool
  isGranted :: "jsval \<Rightarrow> oracle_error + bool"
  isAdmin :: "jsval \<Rightarrow> oracle_error + bool"

definition getEthereumContract :: "ledger \<Rightarrow> js_error + ledger" where
  "getEthereumContract W =
     (if constructs W then Inr W
      else Inl (EthereumContractError ''Failed to get Ethereum contract''))"

text \<open>
  \<^verbatim>\<open>
  const authenticateToken = async (req, res, next) => {
    try {
      const decoded = await verifyToken(req);
      const contract = await getEthereumContract();
      if (!(await contract.isGranted(decoded.walletAddress))) {
        throw new HttpError('Unauthorized', 401);
      }
      next();
    } catch (err) {
      next(err);
    }
  };
  \<close>
\<close>

definition authenticateToken :: "lib \<Rightarrow> env \<Rightarrow> ledger \<Rightarrow> handler" where
  "authenticateToken L E W next c =
     (case verifyToken L E c of
        Inl err \<Rightarrow> next (Some err) c
      | Inr w \<Rightarrow>
          (case getEthereumContract W of
             Inl err \<Rightarrow> next (Some err) c
           | Inr contract \<Rightarrow>
               (let c1 = emit (ContractCall ''isGranted'' w) c
                in case isGranted contract w of
                     Inl err \<Rightarrow> next (Some (thrown err)) c1
                   | Inr granted \<Rightarrow>
                       if \<not> granted then next (Some (HttpError ''Unauthorized'' 401)) c1
                       else next None c1)))"

text \<open>
  \<^verbatim>\<open>
  const authenticateAdmin = async (req, res, next) => {
    try {
      const decoded = await verifyToken(req);
      const contract = await getEthereumContract();
      if (!(await contract.isAdmin(decoded.walletAddress))) {
        throw new HttpError('Unauthorized', 401);
      }
      next();
    } catch (err) {
      next(err);
    }
  };
  \<close>
\<close>

definition authenticateAdmin :: "lib \<Rightarrow> env \<Rightarrow> ledger \<Rightarrow> handler" where
  "authenticateAdmin L E W next c =
     (case verifyToken L E c of
        Inl err \<Rightarrow> next (Some err) c
      | Inr w \<Rightarrow>
          (case getEthereumContract W of
             Inl err \<Rightarrow> next (Some err) c
           | Inr contract \<Rightarrow>
               (let c1 = emit (ContractCall ''isAdmin'' w) c
                in case isAdmin contract w of
                     Inl err \<Rightarrow> next (Some (thrown err)) c1
                   | Inr admin \<Rightarrow>
                       if \<not> admin then next (Some (HttpError ''Unauthorized'' 401)) c1
                       else next None c1)))"

text \<open>
  \<^verbatim>\<open>
  app.get('/protected', authenticateToken, (req, res) => {
    res.send('Hello! You are viewing protected content.');
  });
  app.use('/api/v0/add', authenticateToken,
    createProxyMiddleware({ target: `${IPFS_URL}/api/v0/add` }));
  \<close>
\<close>

definition hello :: handler where
  "hello next c = emit (Send (JNum 200) (Text ''Hello! You are viewing protected content.'')) c"

definition proxyAdd :: handler where
  "proxyAdd next c = emit (Proxy ''/api/v0/add'') c"

definition protected :: "lib \<Rightarrow> env \<Rightarrow> ledger \<Rightarrow> ctx \<Rightarrow> ctx" where
  "protected L E W c = route [authenticateToken L E W, hello] None c"

definition api_v0_add :: "lib \<Rightarrow> env \<Rightarrow> ledger \<Rightarrow> ctx \<Rightarrow> ctx" where
  "api_v0_add L E W c = route [authenticateToken L E W, proxyAdd] None c"

text \<open>
  A gate admits a request when it calls \<^verbatim>\<open>next()\<close>.  Run as the only handler of a
  route, the gate then falls through, and in every other case the error handler answers.
\<close>

definition admits :: "handler \<Rightarrow> ctx \<Rightarrow> bool" where
  "admits gate c = (FellThrough \<in> set (events (route [gate] None c)))"

section \<open>The external query adapter\<close>

text \<open>
  What the HTTPS exchange with the indexing service does, as the sequence of events the
  runtime delivers: \<open>ReqError e\<close> is an \<^verbatim>\<open>'error'\<close> event on the request object,
  \<open>Response\<close> the arrival of the response (the callback given to
  \<^verbatim>\<open>https.request\<close> runs), \<open>Chunk s\<close> a \<^verbatim>\<open>'data'\<close> event and \<open>End\<close> the
  \<^verbatim>\<open>'end'\<close> event of the response.
  \<^verbatim>\<open>
  const queryTheGraphStudioAPI = (query, callback) => {
    const data = JSON.stringify({ query });
    const options = { ... };
    const req = https.request(options, (res) => {
      let data = '';
      res.on('data', (chunk) => {
        data += chunk;
      });
      res.on('end', () => {
        callback(null, JSON.parse(data));
      });
      req.on('error', callback);
    });
    req.write(data);
    req.end();
  };
  \<close>
  The three listeners are registered inside the response callback, so none of them exists
  before \<open>Response\<close>.  An \<^verbatim>\<open>'error'\<close> event without a listener is thrown by the
  runtime, and so is an exception of \<^verbatim>\<open>JSON.parse\<close> inside the \<^verbatim>\<open>'end'\<close>
  listener: both are uncaught exceptions, after which nothing more runs.
  \<open>listening\<close> says whether the response callback has run, \<open>data\<close> is its variable.
\<close>

datatype net_event = ReqError js_error | Response | Chunk string | End

type_synonym callback = "js_error option \<Rightarrow> jsval \<Rightarrow> ctx \<Rightarrow> ctx"

fun exchange :: "lib \<Rightarrow> callback \<Rightarrow> bool \<Rightarrow> string \<Rightarrow> net_event list \<Rightarrow> ctx \<Rightarrow> ctx" where
  "exchange L cb listening data [] c = c"
| "exchange L cb listening data (ReqError e # evs) c =
     (if listening then exchange L cb listening data evs (cb (Some e) JUndefined c)
      else emit (Uncaught e) c)"
| "exchange L cb listening data (Response # evs) c = exchange L cb True [] evs c"
| "exchange L cb listening data (Chunk s # evs) c =
     (if listening then exchange L cb listening (data @ s) evs c
      else exchange L cb listening data evs c)"
| "exchange L cb listening data (End # evs) c =
     (if listening then
        (case JSON_parse L data of
           None \<Rightarrow> emit (Uncaught (SyntaxError ''Unexpected token in JSON'')) c
         | Some v \<Rightarrow> exchange L cb listening data evs (cb None v c))
      else exchange L cb listening data evs c)"

definition queryTheGraphStudioAPI ::
  "lib \<Rightarrow> (string \<Rightarrow> net_event list) \<Rightarrow> string \<Rightarrow> callback \<Rightarrow> ctx \<Rightarrow> ctx" where
  "queryTheGraphStudioAPI L net query cb c = exchange L cb False [] (net query) c"

text \<open>
  \<^verbatim>\<open>
  app.get('/approved-wallets', authenticateAdmin, (req, res, next) => {
    const query = `{ wallets(where: { granted: true }) { id } }`;
    queryTheGraphStudioAPI(query, (err, data) => {
      if (err) {
        next(new HttpError('Error querying approved wallets with TheGraph Studio API', 500));
      } else {
        res.status(200).send(data);
      }
    });
  });
  \<close>
  and the same for \<^verbatim>\<open>/submitted-wallets\<close> with \<^verbatim>\<open>pending: true\<close> (the line breaks
  of the query text are left out).
\<close>

definition approvedWallets :: "lib \<Rightarrow> (string \<Rightarrow> net_event list) \<Rightarrow> handler" where
  "approvedWallets L net next c =
     queryTheGraphStudioAPI L net ''{ wallets(where: { granted: true }) { id } }''
       (\<lambda>err data c'.
          if err \<noteq> None
          then next (Some (HttpError ''Error querying approved wallets with TheGraph Studio API'' 500)) c'
          else emit (Send (JNum 200) (Data data)) c') c"

definition submittedWallets :: "lib \<Rightarrow> (string \<Rightarrow> net_event list) \<Rightarrow> handler" where
  "submittedWallets L net next c =
     queryTheGraphStudioAPI L net ''{ wallets(where: { pending: true }) { id } }''
       (\<lambda>err data c'.
          if err \<noteq> None
          then next (Some (HttpError ''Error querying submitted wallets with TheGraph Studio API'' 500)) c'
          else emit (Send (JNum 200) (Data data)) c') c"

definition approved_wallets ::
  "lib \<Rightarrow> env \<Rightarrow> ledger \<Rightarrow> (string \<Rightarrow> net_event list) \<Rightarrow> ctx \<Rightarrow> ctx" where
  "approved_wallets L E W net c = route [authenticateAdmin L E W, approvedWallets L net] None c"

definition submitted_wallets ::
  "lib \<Rightarrow> env \<Rightarrow> ledger \<Rightarrow> (string \<Rightarrow> net_event list) \<Rightarrow> ctx \<Rightarrow> ctx" where
  "submitted_wallets L E W net c = route [authenticateAdmin L E W, submittedWallets L net] None c"

section \<open>A concrete configuration\<close>

text \<open>
  One instance of the libraries and of the environment, on which the model is evaluated.
  The hash wraps its input, a signature \<^verbatim>\<open>sig:A\<close> recovers to the address \<^verbatim>\<open>A\<close>, and
  the token of an address \<^verbatim>\<open>A\<close> is \<^verbatim>\<open>jwt:A\<close>, so that the address inside a token
  can be read off.
\<close>

definition sample_lib :: lib where
  "sample_lib =
     \<lparr>sha1_hex = (\<lambda>s. ''sha1('' @ s @ '')''),
      ethers_isAddress = (\<lambda>s. take 2 s = ''0x''),
      ethers_verifyMessage =
        (\<lambda>m sg. case sg of JStr t \<Rightarrow> (if take 4 t = ''sig:'' then Some (drop 4 t) else None)
                          | _ \<Rightarrow> None),
      jwt_sign =
        (\<lambda>w k x. case (w, k) of
                    (JStr a, Some key) \<Rightarrow> Inr (''jwt:'' @ a)
                  | _ \<Rightarrow> Inl (LibError ''secretOrPrivateKey must have a value'' JUndefined)),
      jwt_verify =
        (\<lambda>t k. if take 4 t = ''jwt:'' then Inr (JStr (drop 4 t))
                else Inl (LibError ''jwt malformed'' JUndefined)),
      JSON_parse = (\<lambda>s. if s = ''{}'' then Some (JObj ''{}'') else None)\<rparr>"

definition sample_env :: env where
  "sample_env = \<lparr>SECRET = Some ''s3'', JWT_SECRET_KEY = Some ''k''\<rparr>"

text \<open>A ledger that grants and makes admin exactly one address, and one that fails.\<close>

definition ledger_of :: "jsval \<Rightarrow> ledger" where
  "ledger_of a = \<lparr>constructs = True, isGranted = (\<lambda>w. Inr (w = a)), isAdmin = (\<lambda>w. Inr (w = a))\<rparr>"

definition ledger_failing :: "oracle_error \<Rightarrow> ledger" where
  "ledger_failing e = \<lparr>constructs = True, isGranted = (\<lambda>w. Inl e), isAdmin = (\<lambda>w. Inl e)\<rparr>"

section \<open>Basic facts\<close>

lemma lower_char_idem: "lower_char (lower_char c) = lower_char c"
  by (simp add: lower_char_def Let_def)

lemma toLowerCase_idem: "toLowerCase (toLowerCase s) = toLowerCase s"
  by (simp add: toLowerCase_def lower_char_idem)

lemma events_emit: "events (emit e c) = events c @ [e]"
  by (simp add: emit_def)

lemma events_errorHandler:
  "events (errorHandler err c) =
     events c @
       [if valid_status (if truthy (code err) then code err else JNum 500)
        then Send (if truthy (code err) then code err else JNum 500)
               (Text (if message err = [] then ''Something went wrong'' else message err))
        else Send (JNum 500) ErrorPage]"
  by (simp add: errorHandler_def emit_def Let_def)

lemma errorHandler_no_token: "Send t (TokenObj b) \<notin> set (events (errorHandler err (request w n s h)))"
  by (simp add: events_errorHandler request_def)

lemma code_thrown: "code (thrown err) = JUndefined \<or> (\<exists>c. code (thrown err) = JStr c)"
  by (cases err rule: thrown.cases) simp_all

lemma signup_valid:
  assumes "ethers_isAddress L A" and "A \<noteq> []"
  shows "events (signup L E (request (JStr A) n s h)) =
           [Send (JNum 200) (NonceObj (sha1_hex L (toLowerCase A @ '':'' @ template (SECRET E))))]"
  using assms
  by (simp add: signup_def validateWalletAddress_def createNonce_def request_def emit_def
      toLowerCase_idem)

lemma verify_recovered:
  assumes "truthy n" and "truthy s" and "ethers_verifyMessage L n s = Some R"
  shows "verify L E (request w n s h) =
     (if n \<noteq> JStr (sha1_hex L (toLowerCase R @ '':'' @ template (SECRET E)))
      then errorHandler (HttpError ''Nonce mismatch'' 400) (request w n s h)
      else (case createJwtToken L E (JStr R) of
              Inl err \<Rightarrow> errorHandler err ((request w n s h)\<lparr>locals_address := JStr R\<rparr>)
            | Inr token \<Rightarrow> emit (Send (JNum 200) (TokenObj token))
                             ((request w n s h)\<lparr>locals_address := JStr R\<rparr>)))"
  using assms
  by (simp add: verify_def validateVerificationParameters_def verifyMessage_def
      getAddressFromMessage_def sendToken_def request_def split: sum.splits)

lemma verify_unrecovered:
  assumes "truthy n" and "truthy s" and "ethers_verifyMessage L n s = None"
  shows "events (verify L E (request w n s h)) =
     [Send (JNum 400) (Text ''Failed to verify message''),
      Uncaught (TypeError ''Cannot read properties of undefined'')]"
  using assms
  by (simp add: verify_def validateVerificationParameters_def verifyMessage_def
      getAddressFromMessage_def request_def events_emit events_errorHandler)

lemma events_request: "events (request w n s a) = []"
  by (simp add: request_def)

lemma authorization_request: "authorization (request w n s a) = a"
  by (simp add: request_def)

lemma split_on_absent: "sep \<notin> set xs \<Longrightarrow> split_on sep xs = [xs]"
  by (induction xs) auto

lemma bearer_no_space: "CHR '' '' \<notin> set h \<Longrightarrow> bearer (Some h) = None"
  by (simp add: split_on_absent)

lemma gate_granted:
  assumes "bearer (authorization c) = Some t" and "jwt_verify L t (JWT_SECRET_KEY E) = Inr w"
  shows "authenticateToken L E W next c =
     (if \<not> constructs W then next (Some (EthereumContractError ''Failed to get Ethereum contract'')) c
      else (case isGranted W w of
              Inl err \<Rightarrow> next (Some (thrown err)) (emit (ContractCall ''isGranted'' w) c)
            | Inr g \<Rightarrow> if g then next None (emit (ContractCall ''isGranted'' w) c)
                       else next (Some (HttpError ''Unauthorized'' 401)) (emit (ContractCall ''isGranted'' w) c)))"
  using assms
  by (simp add: authenticateToken_def verifyToken_def getEthereumContract_def Let_def split: sum.splits)

lemma gate_admin:
  assumes "bearer (authorization c) = Some t" and "jwt_verify L t (JWT_SECRET_KEY E) = Inr w"
  shows "authenticateAdmin L E W next c =
     (if \<not> constructs W then next (Some (EthereumContractError ''Failed to get Ethereum contract'')) c
      else (case isAdmin W w of
              Inl err \<Rightarrow> next (Some (thrown err)) (emit (ContractCall ''isAdmin'' w) c)
            | Inr g \<Rightarrow> if g then next None (emit (ContractCall ''isAdmin'' w) c)
                       else next (Some (HttpError ''Unauthorized'' 401)) (emit (ContractCall ''isAdmin'' w) c)))"
  using assms
  by (simp add: authenticateAdmin_def verifyToken_def getEthereumContract_def Let_def split: sum.splits)

lemma exchange_chunks:
  "exchange L cb True d (map Chunk cs @ evs) c = exchange L cb True (d @ concat cs) evs c"
  by (induction cs arbitrary: d) simp_all

lemma query_success:
  assumes "JSON_parse L (concat cs) = Some v"
  shows "queryTheGraphStudioAPI L (\<lambda>q. Response # map Chunk cs @ [End]) query cb c = cb None v c"
  using assms by (simp add: queryTheGraphStudioAPI_def exchange_chunks)

lemma query_not_json:
  assumes "JSON_parse L (concat cs) = None"
  shows "queryTheGraphStudioAPI L (\<lambda>q. Response # map Chunk cs @ [End]) query cb c
           = emit (Uncaught (SyntaxError ''Unexpected token in JSON'')) c"
  using assms by (simp add: queryTheGraphStudioAPI_def exchange_chunks)

section \<open>Nonce generation and signup\<close>

text \<open>
  Claim C3.  For every valid wallet address \<open>A\<close> and every secret, the nonce of \<open>A\<close> is
  the nonce of the lowercase form of \<open>A\<close>.  The nonce is a function of the address and of
  the configuration alone, and \<^verbatim>\<open>/signup\<close> answers 200 with exactly that nonce whatever
  else the request carries, so repeated signups for one address return the same nonce.
\<close>

theorem generateNonce_case_insensitive:
  assumes "ethers_isAddress L A" and "A \<noteq> []"
  shows "generateNonce L E (JStr A) = generateNonce L E (JStr (toLowerCase A))
       \<and> (\<exists>n. generateNonce L E (JStr A) = Inr n
            \<and> events (signup L E (request (JStr A) x y h)) = [Send (JNum 200) (NonceObj n)])"
  using assms by (simp add: signup_valid toLowerCase_idem)

theorem generateNonce_case_insensitive_witness:
  "ethers_isAddress sample_lib ''0xAbC1'' \<and> ''0xAbC1'' \<noteq> []
   \<and> generateNonce sample_lib sample_env (JStr ''0xAbC1'')
       = generateNonce sample_lib sample_env (JStr (toLowerCase ''0xAbC1''))
   \<and> (\<exists>n. generateNonce sample_lib sample_env (JStr ''0xAbC1'') = Inr n
        \<and> events (signup sample_lib sample_env
              (request (JStr ''0xAbC1'') JUndefined JUndefined None))
            = [Send (JNum 200) (NonceObj n)])"
proof -
  have valid: "ethers_isAddress sample_lib ''0xAbC1''"
    by (simp add: sample_lib_def)
  have nonempty: "''0xAbC1'' \<noteq> []"
    by simp
  from generateNonce_case_insensitive [OF valid nonempty]
  show ?thesis using valid by blast
qed

section \<open>Verification\<close>

text \<open>
  Claim C1, as stated, fails.  With the nonce that belongs to the recovered address and no
  \<^verbatim>\<open>JWT_SECRET_KEY\<close> in the environment, \<^verbatim>\<open>jwt.sign\<close> hands an error to its
  callback, \<open>createJwtToken\<close> rejects and the route passes the error on: the answer is
  500 and no token is issued although the nonce matches.
\<close>

theorem verify_matching_nonce_sign_error:
  "generateNonce sample_lib (sample_env\<lparr>JWT_SECRET_KEY := None\<rparr>) (JStr ''0xAB'')
     = Inr ''sha1(0xab:s3)''
   \<and> events (verify sample_lib (sample_env\<lparr>JWT_SECRET_KEY := None\<rparr>)
        (request JUndefined (JStr ''sha1(0xab:s3)'') (JStr ''sig:0xAB'') None))
       = [Send (JNum 500) (Text ''secretOrPrivateKey must have a value'')]"
proof -
  have low: "toLowerCase ''0xAB'' = ''0xab''"
    by code_simp
  have g: "generateNonce sample_lib (sample_env\<lparr>JWT_SECRET_KEY := None\<rparr>) (JStr ''0xAB'')
     = Inr ''sha1(0xab:s3)''"
    by (simp add: low sample_lib_def sample_env_def)
  have e: "events (verify sample_lib (sample_env\<lparr>JWT_SECRET_KEY := None\<rparr>)
        (request JUndefined (JStr ''sha1(0xab:s3)'') (JStr ''sig:0xAB'') None))
       = [Send (JNum 500) (Text ''secretOrPrivateKey must have a value'')]"
    by (subst verify_recovered [where R = "''0xAB''"])
      (simp_all add: low sample_lib_def sample_env_def createJwtToken_def events_errorHandler
         request_def)
  from g e show ?thesis by blast
qed

text \<open>
  Claim C1, amended.  For every \<^verbatim>\<open>/verify\<close> request whose nonce and signed message are
  present and whose signature recovery yields the address \<open>R\<close>: the request is answered
  with a token if and only if the supplied nonce is the string \<open>generateNonce R\<close> and
  \<^verbatim>\<open>jwt.sign\<close> returns a token for \<open>R\<close>, and the answer is then 200 with that token.
  When the nonce matches and \<^verbatim>\<open>jwt.sign\<close> errors, what happens is what the error
  handler does with that error, and no token is issued.  When the nonce differs, the only
  thing that happens is the answer 400 \<^verbatim>\<open>Nonce mismatch\<close>, so no token is issued.
\<close>

theorem verify_token_iff_nonce_matches_and_signed:
  assumes "truthy n" and "truthy s"
    and "ethers_verifyMessage L n s = Some R"
    and "generateNonce L E (JStr R) = Inr expected"
  shows "((\<exists>t b. Send t (TokenObj b) \<in> set (events (verify L E (request w n s h))))
            \<longleftrightarrow> n = JStr expected \<and> (\<exists>token. createJwtToken L E (JStr R) = Inr token))
       \<and> (\<forall>token. n = JStr expected \<and> createJwtToken L E (JStr R) = Inr token \<longrightarrow>
            events (verify L E (request w n s h)) = [Send (JNum 200) (TokenObj token)])
       \<and> (\<forall>err. n = JStr expected \<and> createJwtToken L E (JStr R) = Inl err \<longrightarrow>
            events (verify L E (request w n s h)) = events (errorHandler err (request w n s h)))
       \<and> (n \<noteq> JStr expected \<longrightarrow>
            events (verify L E (request w n s h)) = [Send (JNum 400) (Text ''Nonce mismatch'')])"
proof -
  from assms(4) have e: "expected = sha1_hex L (toLowerCase R @ '':'' @ template (SECRET E))"
    by simp
  note v = verify_recovered [OF assms(1-3), of E w h]
  show ?thesis
  proof (cases "n = JStr expected")
    case False
    with e have "events (verify L E (request w n s h)) = [Send (JNum 400) (Text ''Nonce mismatch'')]"
      unfolding v by (simp add: events_errorHandler request_def)
    with False show ?thesis by simp
  next
    case True
    show ?thesis
    proof (cases "createJwtToken L E (JStr R)")
      case (Inr token)
      with True e have "events (verify L E (request w n s h)) = [Send (JNum 200) (TokenObj token)]"
        unfolding v by (simp add: events_emit request_def)
      with True Inr show ?thesis by simp
    next
      case (Inl err)
      with True e have ev: "events (verify L E (request w n s h))
          = events (errorHandler err (request w n s h))"
        unfolding v by (simp add: events_errorHandler request_def)
      have "\<And>t b. Send t (TokenObj b) \<notin> set (events (verify L E (request w n s h)))"
        unfolding ev by (rule errorHandler_no_token)
      with True Inl ev show ?thesis by simp
    qed
  qed
qed

theorem verify_token_iff_nonce_matches_and_signed_witness:
  "truthy (JStr ''sha1(0xab:s3)'') \<and> truthy (JStr ''sig:0xAB'')
   \<and> ethers_verifyMessage sample_lib (JStr ''sha1(0xab:s3)'') (JStr ''sig:0xAB'') = Some ''0xAB''
   \<and> generateNonce sample_lib sample_env (JStr ''0xAB'') = Inr ''sha1(0xab:s3)''
   \<and> createJwtToken sample_lib sample_env (JStr ''0xAB'') = Inr ''jwt:0xAB''
   \<and> events (verify sample_lib sample_env
         (request JUndefined (JStr ''sha1(0xab:s3)'') (JStr ''sig:0xAB'') None))
       = [Send (JNum 200) (TokenObj ''jwt:0xAB'')]"
proof -
  have p: "truthy (JStr ''sha1(0xab:s3)'')" and q: "truthy (JStr ''sig:0xAB'')"
    by simp_all
  have r: "ethers_verifyMessage sample_lib (JStr ''sha1(0xab:s3)'') (JStr ''sig:0xAB'') = Some ''0xAB''"
    by (simp add: sample_lib_def)
  have low: "toLowerCase ''0xAB'' = ''0xab''"
    by code_simp
  have g: "generateNonce sample_lib sample_env (JStr ''0xAB'') = Inr ''sha1(0xab:s3)''"
    by (simp add: low sample_lib_def sample_env_def)
  have t: "createJwtToken sample_lib sample_env (JStr ''0xAB'') = Inr ''jwt:0xAB''"
    by (simp add: createJwtToken_def sample_lib_def sample_env_def)
  from verify_token_iff_nonce_matches_and_signed [OF p q r g, of JUndefined None]
  show ?thesis using p q r g t by blast
qed

text \<open>
  Claim C2.  The request \<^verbatim>\<open>{nonce: "abc", signedMessage: "garbage"}\<close>, whose signature
  recovery throws: \<open>getAddressFromMessage\<close> calls \<^verbatim>\<open>next\<close> with the 400 error
  \<^verbatim>\<open>Failed to verify message\<close> and returns \<^verbatim>\<open>undefined\<close> to \<open>verifyMessage\<close>,
  which does not stop there: it goes on to call \<open>generateNonce\<close> on \<^verbatim>\<open>undefined\<close>,
  and that call throws a TypeError that nothing catches.  The answer is the 400 and no
  token is issued, but the failure does not short-circuit the handler.
\<close>

theorem verify_recovery_failure_continues:
  "events (verify sample_lib sample_env (request JUndefined (JStr ''abc'') (JStr ''garbage'') None))
     = [Send (JNum 400) (Text ''Failed to verify message''),
        Uncaught (TypeError ''Cannot read properties of undefined'')]"
  by (rule verify_unrecovered) (simp_all add: sample_lib_def)

text \<open>
  Claim C6, as stated, fails.  \<open>verifyMessage\<close> stores the recovered address as it is,
  and the token is signed over that value: for a signature that recovers to \<^verbatim>\<open>0xAB\<close>
  the credential holds \<^verbatim>\<open>0xAB\<close>, not its lowercase form \<^verbatim>\<open>0xab\<close>, and the gate
  later presents \<^verbatim>\<open>0xAB\<close> to the contract.
\<close>

theorem verify_credential_not_lowercased:
  "events (verify sample_lib sample_env
      (request JUndefined (JStr ''sha1(0xab:s3)'') (JStr ''sig:0xAB'') None))
     = [Send (JNum 200) (TokenObj ''jwt:0xAB'')]
   \<and> locals_address (verify sample_lib sample_env
        (request JUndefined (JStr ''sha1(0xab:s3)'') (JStr ''sig:0xAB'') None))
       \<noteq> JStr (toLowerCase ''0xAB'')
   \<and> jwt_sign sample_lib (JStr (toLowerCase ''0xAB'')) (JWT_SECRET_KEY sample_env) ''1d''
       = Inr ''jwt:0xab''
   \<and> events (protected sample_lib sample_env (ledger_of (JStr ''0xAB''))
        (request JUndefined JUndefined JUndefined (Some ''Bearer jwt:0xAB'')))
       = [ContractCall ''isGranted'' (JStr ''0xAB''),
          Send (JNum 200) (Text ''Hello! You are viewing protected content.'')]"
proof -
  have low: "toLowerCase ''0xAB'' = ''0xab''"
    by code_simp
  have a: "events (verify sample_lib sample_env
      (request JUndefined (JStr ''sha1(0xab:s3)'') (JStr ''sig:0xAB'') None))
     = [Send (JNum 200) (TokenObj ''jwt:0xAB'')]"
    by (subst verify_recovered [where R = "''0xAB''"])
      (simp_all add: low sample_lib_def sample_env_def createJwtToken_def events_emit request_def)
  have b: "jwt_sign sample_lib (JStr (toLowerCase ''0xAB'')) (JWT_SECRET_KEY sample_env) ''1d''
       = Inr ''jwt:0xab''"
    by (simp add: low sample_lib_def sample_env_def)
  have c: "events (protected sample_lib sample_env (ledger_of (JStr ''0xAB''))
        (request JUndefined JUndefined JUndefined (Some ''Bearer jwt:0xAB'')))
       = [ContractCall ''isGranted'' (JStr ''0xAB''),
          Send (JNum 200) (Text ''Hello! You are viewing protected content.'')]"
    by (simp add: protected_def authenticateToken_def verifyToken_def getEthereumContract_def
        hello_def ledger_of_def sample_lib_def sample_env_def request_def emit_def Let_def)
  have d: "locals_address (verify sample_lib sample_env
        (request JUndefined (JStr ''sha1(0xab:s3)'') (JStr ''sig:0xAB'') None))
       \<noteq> JStr (toLowerCase ''0xAB'')"
    by (subst verify_recovered [where R = "''0xAB''"])
      (simp_all add: low sample_lib_def sample_env_def createJwtToken_def emit_def request_def)
  from a b c d show ?thesis by blast
qed

text \<open>
  Claim C6, amended.  The wallet address is put in lowercase by \<^verbatim>\<open>/signup\<close>, which
  replaces the valid address it receives by its lowercase form, and inside the nonce.
  \<^verbatim>\<open>/verify\<close> does not: \<open>res.locals.address\<close> is the recovered address \<open>R\<close> exactly as
  signature recovery returned it, and the answer is the token that \<^verbatim>\<open>jwt.sign\<close> makes
  for \<open>R\<close> itself.  Hence, for a token that verifies to the payload it was signed over,
  \<open>R\<close> unchanged is the one address that the gate presents to the contract.
\<close>

theorem address_case_at_boundaries:
  assumes "truthy n" and "truthy s"
    and "ethers_verifyMessage L n s = Some R"
    and "n = JStr (sha1_hex L (toLowerCase R @ '':'' @ template (SECRET E)))"
    and "jwt_sign L (JStr R) (JWT_SECRET_KEY E) ''1d'' = Inr token"
  shows "locals_address (verify L E (request w n s h)) = JStr R
       \<and> events (verify L E (request w n s h)) = [Send (JNum 200) (TokenObj token)]
       \<and> (CHR '' '' \<notin> set token \<and> jwt_verify L token (JWT_SECRET_KEY E) = Inr (JStr R)
            \<and> constructs W \<longrightarrow>
            (\<forall>x. ContractCall ''isGranted'' x
                    \<in> set (events (protected L E W (request w' n' s' (Some (''Bearer '' @ token)))))
                  \<longleftrightarrow> x = JStr R))
       \<and> (ethers_isAddress L A \<and> A \<noteq> [] \<longrightarrow>
            walletAddress (signup L E (request (JStr A) x y z)) = JStr (toLowerCase A))
       \<and> generateNonce L E (JStr R) = generateNonce L E (JStr (toLowerCase R))"
proof -
  note v = verify_recovered [OF assms(1-3), of E w h]
  from assms(4,5) have a: "locals_address (verify L E (request w n s h)) = JStr R
       \<and> events (verify L E (request w n s h)) = [Send (JNum 200) (TokenObj token)]"
    unfolding v by (simp add: createJwtToken_def emit_def request_def)
  have b: "\<forall>x. ContractCall ''isGranted'' x
                    \<in> set (events (protected L E W (request w' n' s' (Some (''Bearer '' @ token)))))
                  \<longleftrightarrow> x = JStr R"
    if t: "CHR '' '' \<notin> set token" and j: "jwt_verify L token (JWT_SECRET_KEY E) = Inr (JStr R)"
      and k: "constructs W"
  proof -
    define rq where "rq = request w' n' s' (Some (''Bearer '' @ token))"
    have be: "bearer (authorization rq) = Some token"
      using t by (simp add: rq_def request_def split_on_absent)
    have er: "events rq = []"
      by (simp add: rq_def request_def)
    note g = gate_granted [OF be j]
    have "\<forall>x. ContractCall ''isGranted'' x \<in> set (events (protected L E W rq)) \<longleftrightarrow> x = JStr R"
      using k
      by (cases "isGranted W (JStr R)")
        (auto simp: protected_def g events_emit events_errorHandler er hello_def)
    then show ?thesis
      unfolding rq_def .
  qed
  have c: "walletAddress (signup L E (request (JStr A) x y z)) = JStr (toLowerCase A)"
    if "ethers_isAddress L A" and "A \<noteq> []"
    using that
    by (simp add: signup_def validateWalletAddress_def createNonce_def request_def emit_def)
  have d: "generateNonce L E (JStr R) = generateNonce L E (JStr (toLowerCase R))"
    by (simp add: toLowerCase_idem)
  from a b c d show ?thesis by blast
qed

theorem address_case_at_boundaries_witness:
  "truthy (JStr ''sha1(0xab:s3)'') \<and> truthy (JStr ''sig:0xAB'')
   \<and> ethers_verifyMessage sample_lib (JStr ''sha1(0xab:s3)'') (JStr ''sig:0xAB'') = Some ''0xAB''
   \<and> jwt_sign sample_lib (JStr ''0xAB'') (JWT_SECRET_KEY sample_env) ''1d'' = Inr ''jwt:0xAB''
   \<and> CHR '' '' \<notin> set ''jwt:0xAB''
   \<and> jwt_verify sample_lib ''jwt:0xAB'' (JWT_SECRET_KEY sample_env) = Inr (JStr ''0xAB'')
   \<and> constructs (ledger_of (JStr ''0xAB''))
   \<and> ethers_isAddress sample_lib ''0xAB'' \<and> ''0xAB'' \<noteq> []
   \<and> locals_address (verify sample_lib sample_env
         (request JUndefined (JStr ''sha1(0xab:s3)'') (JStr ''sig:0xAB'') None)) = JStr ''0xAB''
   \<and> ContractCall ''isGranted'' (JStr ''0xAB'')
        \<in> set (events (protected sample_lib sample_env (ledger_of (JStr ''0xAB''))
                 (request JUndefined JUndefined JUndefined (Some (''Bearer '' @ ''jwt:0xAB'')))))
   \<and> walletAddress (signup sample_lib sample_env (request (JStr ''0xAB'') JUndefined JUndefined None))
       = JStr (toLowerCase ''0xAB'')"
proof -
  have p: "truthy (JStr ''sha1(0xab:s3)'')" and q: "truthy (JStr ''sig:0xAB'')"
    by simp_all
  have r: "ethers_verifyMessage sample_lib (JStr ''sha1(0xab:s3)'') (JStr ''sig:0xAB'') = Some ''0xAB''"
    by (simp add: sample_lib_def)
  have low: "toLowerCase ''0xAB'' = ''0xab''"
    by code_simp
  have g: "JStr ''sha1(0xab:s3)''
      = JStr (sha1_hex sample_lib (toLowerCase ''0xAB'' @ '':'' @ template (SECRET sample_env)))"
    by (simp add: low sample_lib_def sample_env_def)
  have t: "jwt_sign sample_lib (JStr ''0xAB'') (JWT_SECRET_KEY sample_env) ''1d'' = Inr ''jwt:0xAB''"
    by (simp add: sample_lib_def sample_env_def)
  have ns: "CHR '' '' \<notin> set ''jwt:0xAB''"
    by simp
  have jv: "jwt_verify sample_lib ''jwt:0xAB'' (JWT_SECRET_KEY sample_env) = Inr (JStr ''0xAB'')"
    by (simp add: sample_lib_def)
  have k: "constructs (ledger_of (JStr ''0xAB''))"
    by (simp add: ledger_of_def)
  have ia: "ethers_isAddress sample_lib ''0xAB'' \<and> ''0xAB'' \<noteq> []"
    by (simp add: sample_lib_def)
  from address_case_at_boundaries [OF p q r g t,
      where w = JUndefined and h = None and W = "ledger_of (JStr ''0xAB'')"
        and w' = JUndefined and n' = JUndefined and s' = JUndefined
        and A = "''0xAB''" and x = JUndefined and y = JUndefined and z = None]
  show ?thesis using p q r t ns jv k ia by simp
qed

section \<open>Token validation\<close>

text \<open>
  Claim C4.  \<open>verifyToken\<close> fails with \<^verbatim>\<open>Unauthorized\<close> (401) exactly when no token
  can be extracted from the Authorization header.  Given an extracted token, it fails with
  \<^verbatim>\<open>Forbidden\<close> (403) exactly when \<^verbatim>\<open>jwt.verify\<close> reports an error, which is how
  the library reports an invalid signature or a token past its expiry; otherwise it
  returns what was decoded, with its \<^verbatim>\<open>walletAddress\<close>.  Tokens are signed with the
  expiry option \<^verbatim>\<open>1d\<close>.
\<close>

theorem verifyToken_outcomes:
  "(verifyToken L E c = Inl (HttpError ''Unauthorized'' 401) \<longleftrightarrow> bearer (authorization c) = None)
   \<and> (bearer (authorization c) = Some t \<longrightarrow>
        (verifyToken L E c = Inl (HttpError ''Forbidden'' 403)
           \<longleftrightarrow> (\<exists>err. jwt_verify L t (JWT_SECRET_KEY E) = Inl err))
        \<and> (\<forall>d. jwt_verify L t (JWT_SECRET_KEY E) = Inr d \<longrightarrow> verifyToken L E c = Inr d))
   \<and> createJwtToken L E a = jwt_sign L a (JWT_SECRET_KEY E) ''1d''"
  by (auto simp: verifyToken_def createJwtToken_def split: option.splits sum.splits)

theorem verifyToken_outcomes_witness:
  "bearer (authorization (request JUndefined JUndefined JUndefined (Some ''Bearer jwt:0xab''))) = Some ''jwt:0xab''
   \<and> jwt_verify sample_lib ''jwt:0xab'' (JWT_SECRET_KEY sample_env) = Inr (JStr ''0xab'')
   \<and> verifyToken sample_lib sample_env (request JUndefined JUndefined JUndefined (Some ''Bearer jwt:0xab'')) = Inr (JStr ''0xab'')
   \<and> verifyToken sample_lib sample_env (request JUndefined JUndefined JUndefined (Some ''Bearer jwt:0xab'')) \<noteq> Inl (HttpError ''Unauthorized'' 401)
   \<and> verifyToken sample_lib sample_env (request JUndefined JUndefined JUndefined (Some ''Bearer jwt:0xab'')) \<noteq> Inl (HttpError ''Forbidden'' 403)"
proof -
  have b: "bearer (authorization (request JUndefined JUndefined JUndefined (Some ''Bearer jwt:0xab''))) = Some ''jwt:0xab''"
    by (simp add: request_def)
  have v: "jwt_verify sample_lib ''jwt:0xab'' (JWT_SECRET_KEY sample_env) = Inr (JStr ''0xab'')"
    by (simp add: sample_lib_def)
  from verifyToken_outcomes [of sample_lib sample_env "(request JUndefined JUndefined JUndefined (Some ''Bearer jwt:0xab''))" "''jwt:0xab''"] b v
  show ?thesis by simp
qed

text \<open>
  Claim C10.  When the Authorization header is present but holds no space, as the header
  \<^verbatim>\<open>Bearer\<close> does, the split has one piece only, the token is \<^verbatim>\<open>undefined\<close>, and
  \<open>verifyToken\<close> throws \<^verbatim>\<open>Unauthorized\<close> (401) whatever \<^verbatim>\<open>jwt.verify\<close> would
  say: the gated route answers 401 and nothing else happens.
\<close>

theorem verifyToken_no_second_part:
  assumes "CHR '' '' \<notin> set h"
  shows "verifyToken L E (request w n s (Some h)) = Inl (HttpError ''Unauthorized'' 401)
       \<and> events (protected L E W (request w n s (Some h))) = [Send (JNum 401) (Text ''Unauthorized'')]"
  using assms
  by (simp add: verifyToken_def protected_def authenticateToken_def bearer_no_space
      authorization_request events_errorHandler events_request del: bearer.simps)

theorem verifyToken_no_second_part_witness:
  "CHR '' '' \<notin> set ''Bearer''
   \<and> verifyToken sample_lib sample_env (request JUndefined JUndefined JUndefined (Some ''Bearer''))
       = Inl (HttpError ''Unauthorized'' 401)
   \<and> events (protected sample_lib sample_env (ledger_of (JStr ''0xab''))
        (request JUndefined JUndefined JUndefined (Some ''Bearer'')))
       = [Send (JNum 401) (Text ''Unauthorized'')]"
proof -
  have nospace: "CHR '' '' \<notin> set ''Bearer''"
    by simp
  from verifyToken_no_second_part [OF nospace]
  show ?thesis using nospace by blast
qed

section \<open>The gates\<close>

text \<open>
  Claim C5.  For a request to a granted-gated route that carries a token which verifies
  to the wallet \<open>w\<close>, the gate admits the request if and only if the contract can be
  reached and \<open>isGranted w\<close> returns true on the ledger as it is at that request.  The
  gate takes the ledger of the request and nothing from an earlier one: when admitted,
  the request's own events start with the contract call, followed by the protected
  content or the hand-over to the proxy; when not, the handler behind the gate does not
  run.
\<close>

theorem granted_gate_rechecks_oracle:
  assumes "bearer h = Some t" and "jwt_verify L t (JWT_SECRET_KEY E) = Inr w"
  shows "(admits (authenticateToken L E W) (request a n s h)
            \<longleftrightarrow> constructs W \<and> isGranted W w = Inr True)
       \<and> (constructs W \<and> isGranted W w = Inr True \<longrightarrow>
            events (protected L E W (request a n s h))
              = [ContractCall ''isGranted'' w,
                 Send (JNum 200) (Text ''Hello! You are viewing protected content.'')]
            \<and> events (api_v0_add L E W (request a n s h))
              = [ContractCall ''isGranted'' w, Proxy ''/api/v0/add''])
       \<and> (\<not> (constructs W \<and> isGranted W w = Inr True) \<longrightarrow>
            protected L E W (request a n s h) = route [authenticateToken L E W] None (request a n s h)
            \<and> api_v0_add L E W (request a n s h) = route [authenticateToken L E W] None (request a n s h)
            \<and> Proxy ''/api/v0/add'' \<notin> set (events (api_v0_add L E W (request a n s h))))"
proof -
  have b: "bearer (authorization (request a n s h)) = Some t"
    using assms(1) by (simp add: request_def)
  note g = gate_granted [OF b assms(2)]
  show ?thesis
    by (cases "isGranted W w")
      (auto simp: admits_def protected_def api_v0_add_def g events_emit events_errorHandler
         events_request hello_def proxyAdd_def)
qed

text \<open>
  The same token on two requests, the first while the ledger grants \<^verbatim>\<open>0xab\<close>, the second
  after the grant has moved to \<^verbatim>\<open>0xcd\<close>: the first is admitted, the second is not.
\<close>

theorem granted_gate_rechecks_oracle_witness:
  "bearer (Some ''Bearer jwt:0xab'') = Some ''jwt:0xab''
   \<and> jwt_verify sample_lib ''jwt:0xab'' (JWT_SECRET_KEY sample_env) = Inr (JStr ''0xab'')
   \<and> admits (authenticateToken sample_lib sample_env (ledger_of (JStr ''0xab''))) (request JUndefined JUndefined JUndefined (Some ''Bearer jwt:0xab''))
   \<and> \<not> admits (authenticateToken sample_lib sample_env (ledger_of (JStr ''0xcd''))) (request JUndefined JUndefined JUndefined (Some ''Bearer jwt:0xab''))
   \<and> events (protected sample_lib sample_env (ledger_of (JStr ''0xab'')) (request JUndefined JUndefined JUndefined (Some ''Bearer jwt:0xab'')))
       = [ContractCall ''isGranted'' (JStr ''0xab''),
          Send (JNum 200) (Text ''Hello! You are viewing protected content.'')]"
proof -
  have b: "bearer (Some ''Bearer jwt:0xab'') = Some ''jwt:0xab''"
    by simp
  have v: "jwt_verify sample_lib ''jwt:0xab'' (JWT_SECRET_KEY sample_env) = Inr (JStr ''0xab'')"
    by (simp add: sample_lib_def)
  have yes: "constructs (ledger_of (JStr ''0xab''))
      \<and> isGranted (ledger_of (JStr ''0xab'')) (JStr ''0xab'') = Inr True"
    by (simp add: ledger_of_def)
  have no: "isGranted (ledger_of (JStr ''0xcd'')) (JStr ''0xab'') \<noteq> Inr True"
    by (simp add: ledger_of_def)
  from granted_gate_rechecks_oracle [OF b v, of "ledger_of (JStr ''0xab'')" JUndefined JUndefined JUndefined]
    granted_gate_rechecks_oracle [OF b v, of "ledger_of (JStr ''0xcd'')" JUndefined JUndefined JUndefined]
    yes no b v
  show ?thesis by blast
qed

text \<open>
  Claim C7.  When the contract call of a gate throws, on the granted gate or on the admin
  gate, the gate does not admit the request and hands the thrown error to the error
  handler.  The error of a failed call has a string code or none, so the answer is 500:
  with the error's message when it has no code, with the error page of Express when its
  code is a string.  An explicit denial is answered 401 \<^verbatim>\<open>Unauthorized\<close>, so a failure
  of the oracle is a 5xx answer that differs from a denial, and the request is neither
  admitted nor denied.  The same holds when the contract cannot be built.
\<close>

theorem oracle_failure_is_server_error:
  assumes "bearer h = Some t" and "jwt_verify L t (JWT_SECRET_KEY E) = Inr w"
  shows "(constructs W \<and> isGranted W w = Inl err \<longrightarrow>
            \<not> admits (authenticateToken L E W) (request a n s h)
            \<and> events (protected L E W (request a n s h))
                = ContractCall ''isGranted'' w # events (errorHandler (thrown err) (request a n s h))
            \<and> events (api_v0_add L E W (request a n s h))
                = ContractCall ''isGranted'' w # events (errorHandler (thrown err) (request a n s h)))
       \<and> (constructs W \<and> isAdmin W w = Inl err \<longrightarrow>
            \<not> admits (authenticateAdmin L E W) (request a n s h)
            \<and> events (approved_wallets L E W net (request a n s h))
                = ContractCall ''isAdmin'' w # events (errorHandler (thrown err) (request a n s h))
            \<and> events (submitted_wallets L E W net (request a n s h))
                = ContractCall ''isAdmin'' w # events (errorHandler (thrown err) (request a n s h)))
       \<and> events (errorHandler (thrown err) (request a n s h))
            = [Send (JNum 500)
                 (if truthy (code (thrown err)) then ErrorPage
                  else Text (if message (thrown err) = [] then ''Something went wrong''
                             else message (thrown err)))]
       \<and> (\<not> constructs W \<longrightarrow>
            \<not> admits (authenticateToken L E W) (request a n s h)
            \<and> \<not> admits (authenticateAdmin L E W) (request a n s h)
            \<and> events (protected L E W (request a n s h))
                = [Send (JNum 500) (Text ''Failed to get Ethereum contract'')]
            \<and> events (approved_wallets L E W net (request a n s h))
                = [Send (JNum 500) (Text ''Failed to get Ethereum contract'')])
       \<and> (constructs W \<and> isGranted W w = Inr False \<longrightarrow>
            events (protected L E W (request a n s h))
              = [ContractCall ''isGranted'' w, Send (JNum 401) (Text ''Unauthorized'')])
       \<and> (constructs W \<and> isAdmin W w = Inr False \<longrightarrow>
            events (approved_wallets L E W net (request a n s h))
              = [ContractCall ''isAdmin'' w, Send (JNum 401) (Text ''Unauthorized'')])"
proof -
  have b: "bearer (authorization (request a n s h)) = Some t"
    using assms(1) by (simp add: request_def)
  note g = gate_granted [OF b assms(2)] gate_admin [OF b assms(2)]
  have e: "events (errorHandler (thrown err) (request a n s h))
            = [Send (JNum 500)
                 (if truthy (code (thrown err)) then ErrorPage
                  else Text (if message (thrown err) = [] then ''Something went wrong''
                             else message (thrown err)))]"
    by (cases err rule: thrown.cases) (simp_all add: events_errorHandler events_request)
  have f: "FellThrough \<notin> set (events (errorHandler (thrown err) (request a n s h)))"
    unfolding e by simp
  have granted: "\<not> admits (authenticateToken L E W) (request a n s h)
            \<and> events (protected L E W (request a n s h))
                = ContractCall ''isGranted'' w # events (errorHandler (thrown err) (request a n s h))
            \<and> events (api_v0_add L E W (request a n s h))
                = ContractCall ''isGranted'' w # events (errorHandler (thrown err) (request a n s h))"
    if "constructs W" and "isGranted W w = Inl err"
    using that f
    by (simp add: admits_def protected_def api_v0_add_def g events_emit events_errorHandler
        events_request)
  have admin: "\<not> admits (authenticateAdmin L E W) (request a n s h)
            \<and> events (approved_wallets L E W net (request a n s h))
                = ContractCall ''isAdmin'' w # events (errorHandler (thrown err) (request a n s h))
            \<and> events (submitted_wallets L E W net (request a n s h))
                = ContractCall ''isAdmin'' w # events (errorHandler (thrown err) (request a n s h))"
    if "constructs W" and "isAdmin W w = Inl err"
    using that f
    by (simp add: admits_def approved_wallets_def submitted_wallets_def g events_emit
        events_errorHandler events_request)
  have unbuilt: "\<not> admits (authenticateToken L E W) (request a n s h)
            \<and> \<not> admits (authenticateAdmin L E W) (request a n s h)
            \<and> events (protected L E W (request a n s h))
                = [Send (JNum 500) (Text ''Failed to get Ethereum contract'')]
            \<and> events (approved_wallets L E W net (request a n s h))
                = [Send (JNum 500) (Text ''Failed to get Ethereum contract'')]"
    if "\<not> constructs W"
    using that
    by (simp add: admits_def protected_def approved_wallets_def g events_errorHandler
        events_request)
  have denied: "events (protected L E W (request a n s h))
              = [ContractCall ''isGranted'' w, Send (JNum 401) (Text ''Unauthorized'')]"
    if "constructs W" and "isGranted W w = Inr False"
    using that
    by (simp add: protected_def g events_emit events_errorHandler events_request)
  have denied_admin: "events (approved_wallets L E W net (request a n s h))
              = [ContractCall ''isAdmin'' w, Send (JNum 401) (Text ''Unauthorized'')]"
    if "constructs W" and "isAdmin W w = Inr False"
    using that
    by (simp add: approved_wallets_def g events_emit events_errorHandler events_request)
  from granted admin e unbuilt denied denied_admin show ?thesis by blast
qed

theorem oracle_failure_is_server_error_witness:
  "bearer (Some ''Bearer jwt:0xab'') = Some ''jwt:0xab''
   \<and> jwt_verify sample_lib ''jwt:0xab'' (JWT_SECRET_KEY sample_env) = Inr (JStr ''0xab'')
   \<and> constructs (ledger_failing (OracleError ''could not detect network'' (Some ''NETWORK_ERROR'')))
   \<and> isGranted (ledger_failing (OracleError ''could not detect network'' (Some ''NETWORK_ERROR''))) (JStr ''0xab'') = Inl (OracleError ''could not detect network'' (Some ''NETWORK_ERROR''))
   \<and> isAdmin (ledger_failing (OracleError ''could not detect network'' (Some ''NETWORK_ERROR''))) (JStr ''0xab'') = Inl (OracleError ''could not detect network'' (Some ''NETWORK_ERROR''))
   \<and> \<not> admits (authenticateToken sample_lib sample_env (ledger_failing (OracleError ''could not detect network'' (Some ''NETWORK_ERROR'')))) (request JUndefined JUndefined JUndefined (Some ''Bearer jwt:0xab''))
   \<and> \<not> admits (authenticateAdmin sample_lib sample_env (ledger_failing (OracleError ''could not detect network'' (Some ''NETWORK_ERROR'')))) (request JUndefined JUndefined JUndefined (Some ''Bearer jwt:0xab''))
   \<and> events (protected sample_lib sample_env (ledger_failing (OracleError ''could not detect network'' (Some ''NETWORK_ERROR''))) (request JUndefined JUndefined JUndefined (Some ''Bearer jwt:0xab'')))
       = [ContractCall ''isGranted'' (JStr ''0xab''), Send (JNum 500) ErrorPage]"
proof -
  have b: "bearer (Some ''Bearer jwt:0xab'') = Some ''jwt:0xab''"
    by simp
  have v: "jwt_verify sample_lib ''jwt:0xab'' (JWT_SECRET_KEY sample_env) = Inr (JStr ''0xab'')"
    by (simp add: sample_lib_def)
  have k: "constructs (ledger_failing (OracleError ''could not detect network'' (Some ''NETWORK_ERROR'')))"
    and g: "isGranted (ledger_failing (OracleError ''could not detect network'' (Some ''NETWORK_ERROR''))) (JStr ''0xab'') = Inl (OracleError ''could not detect network'' (Some ''NETWORK_ERROR''))"
    and a: "isAdmin (ledger_failing (OracleError ''could not detect network'' (Some ''NETWORK_ERROR''))) (JStr ''0xab'') = Inl (OracleError ''could not detect network'' (Some ''NETWORK_ERROR''))"
    by (simp_all add: ledger_failing_def)
  have c: "truthy (code (thrown (OracleError ''could not detect network'' (Some ''NETWORK_ERROR''))))"
    by simp
  from oracle_failure_is_server_error [OF b v, of "ledger_failing (OracleError ''could not detect network'' (Some ''NETWORK_ERROR''))" "(OracleError ''could not detect network'' (Some ''NETWORK_ERROR''))"
      JUndefined JUndefined JUndefined] k g a c
  have "\<not> admits (authenticateToken sample_lib sample_env (ledger_failing (OracleError ''could not detect network'' (Some ''NETWORK_ERROR'')))) (request JUndefined JUndefined JUndefined (Some ''Bearer jwt:0xab''))
     \<and> \<not> admits (authenticateAdmin sample_lib sample_env (ledger_failing (OracleError ''could not detect network'' (Some ''NETWORK_ERROR'')))) (request JUndefined JUndefined JUndefined (Some ''Bearer jwt:0xab''))
     \<and> events (protected sample_lib sample_env (ledger_failing (OracleError ''could not detect network'' (Some ''NETWORK_ERROR''))) (request JUndefined JUndefined JUndefined (Some ''Bearer jwt:0xab'')))
         = [ContractCall ''isGranted'' (JStr ''0xab''), Send (JNum 500) ErrorPage]"
    by simp
  with b v k g a show ?thesis by blast
qed

section \<open>The error handler\<close>

text \<open>
  What the handler does with the errors that carry the program's own codes, and with an
  error without a code.
\<close>

lemma errorHandler_http_code:
  assumes "100 \<le> k" and "k \<le> 999"
  shows "events (errorHandler (HttpError m k) c) =
           events c @ [Send (JNum k) (Text (if m = [] then ''Something went wrong'' else m))]"
  using assms by (auto simp: events_errorHandler)

lemma errorHandler_no_code:
  assumes "code err = JUndefined"
  shows "events (errorHandler err c) =
           events c @ [Send (JNum 500)
                         (Text (if message err = [] then ''Something went wrong'' else message err))]"
  using assms by (simp add: events_errorHandler)

text \<open>
  Claim C9.  An error with a string code reaches the handler whenever a contract call
  fails, as on \<^verbatim>\<open>/protected\<close> with a valid token while the network cannot be detected.
  The handler takes the string as the status, \<^verbatim>\<open>res.status(status).send(message)\<close>
  throws, and the client receives the 500 error page of Express: the body is not the
  error's message, and the page is written by the framework from the exception.
\<close>

theorem errorHandler_string_code_error_page:
  "events (errorHandler (LibError ''could not detect network'' (JStr ''NETWORK_ERROR'')) (request JUndefined JUndefined JUndefined (Some ''Bearer jwt:0xab'')))
     = [Send (JNum 500) ErrorPage]
   \<and> events (protected sample_lib sample_env (ledger_failing (OracleError ''could not detect network'' (Some ''NETWORK_ERROR''))) (request JUndefined JUndefined JUndefined (Some ''Bearer jwt:0xab'')))
       = [ContractCall ''isGranted'' (JStr ''0xab''), Send (JNum 500) ErrorPage]"
proof -
  have b: "bearer (authorization (request JUndefined JUndefined JUndefined (Some ''Bearer jwt:0xab''))) = Some ''jwt:0xab''"
    by (simp add: request_def)
  have v: "jwt_verify sample_lib ''jwt:0xab'' (JWT_SECRET_KEY sample_env) = Inr (JStr ''0xab'')"
    by (simp add: sample_lib_def)
  note g = gate_granted [OF b v]
  show ?thesis
    by (simp add: protected_def g ledger_failing_def events_emit events_errorHandler
        events_request)
qed

section \<open>The external query adapter\<close>

text \<open>
  Claim C8.  A transport error that arrives before any response finds no listener,
  because \<^verbatim>\<open>req.on('error', callback)\<close> is executed inside the response callback: the
  callback is never called, for any request.  On \<^verbatim>\<open>/approved-wallets\<close> with a refused
  connection, and with the response body \<^verbatim>\<open><html>\<close> that \<^verbatim>\<open>JSON.parse\<close> rejects, the
  events after the admin check are an uncaught exception and no answer: neither failure
  reaches the callback, so neither becomes the 500 answer of the route.
\<close>

theorem query_failures_not_reported:
  "queryTheGraphStudioAPI L (\<lambda>q. ReqError e # evs) query cb c = emit (Uncaught e) c
   \<and> events (approved_wallets sample_lib sample_env (ledger_of (JStr ''0xab''))
        (\<lambda>q. [ReqError (LibError ''connect ECONNREFUSED'' (JStr ''ECONNREFUSED''))])
        (request JUndefined JUndefined JUndefined (Some ''Bearer jwt:0xab'')))
       = [ContractCall ''isAdmin'' (JStr ''0xab''),
          Uncaught (LibError ''connect ECONNREFUSED'' (JStr ''ECONNREFUSED''))]
   \<and> events (approved_wallets sample_lib sample_env (ledger_of (JStr ''0xab''))
        (\<lambda>q. [Response, Chunk ''<html>'', End])
        (request JUndefined JUndefined JUndefined (Some ''Bearer jwt:0xab'')))
       = [ContractCall ''isAdmin'' (JStr ''0xab''),
          Uncaught (SyntaxError ''Unexpected token in JSON'')]"
proof -
  have b: "bearer (authorization (request JUndefined JUndefined JUndefined (Some ''Bearer jwt:0xab'')))
      = Some ''jwt:0xab''"
    by (simp add: request_def)
  have v: "jwt_verify sample_lib ''jwt:0xab'' (JWT_SECRET_KEY sample_env) = Inr (JStr ''0xab'')"
    by (simp add: sample_lib_def)
  have j: "JSON_parse sample_lib ''<html>'' = None"
    by (simp add: sample_lib_def)
  note g = gate_admin [OF b v]
  show ?thesis
    by (simp add: approved_wallets_def approvedWallets_def queryTheGraphStudioAPI_def g j
        ledger_of_def events_emit events_request)
qed

end
